theory Spec2Isabelle
  imports Main "HOL-Library.AList"
begin

section \<open>Exceptions\<close>

text \<open>
  The members of \<^verbatim>\<open>ERROR_MESSAGES\<close> that the two modules use. Their texts are set in
  \<^verbatim>\<open>open_webui.constants\<close>, which is not among the sources, so they are kept symbolic;
  \<open>DEFAULT\<close> is the one that takes an argument, and \<open>Str\<close> carries the text \<^verbatim>\<open>str(e)\<close> of
  a caught exception.
\<close>

datatype error_message =
    NOT_FOUND
  | FILE_NOT_PROCESSED
  | EMPTY_CONTENT
  | DEFAULT string
  | Str string

text \<open>
  The exceptions that leave a function of the two modules. \<open>HTTPException\<close> carries the
  status code and the detail; \<open>AttributeError\<close> is what Python raises for an attribute
  read on \<^verbatim>\<open>None\<close>, and no handler of the router catches it.
\<close>

datatype exn =
    HTTPException nat error_message
  | AttributeError string
  | ValueError error_message
  | RuntimeError string

definition HTTP_400_BAD_REQUEST :: nat where
  "HTTP_400_BAD_REQUEST = 400"

section \<open>The stores behind the knowledge router\<close>

text \<open>
  A JSON dictionary is an association list, in insertion order. Of the keys of a
  knowledge's \<^verbatim>\<open>data\<close> the router reads \<^verbatim>\<open>"file_ids"\<close> only; its value is a list of
  file identifiers.
\<close>

type_synonym knowledge_data = "(string \<times> string list) list"
type_synonym file_data = "(string \<times> string) list"
type_synonym bytes = string

record knowledge_model =
  knowledge_id :: string
  knowledge_data :: "knowledge_data option"

record file_model =
  file_data :: "file_data option"
  file_locator :: string

text \<open>The calls that write to a store, in the order the router issues them.\<close>

datatype call =
    Process_file string string
  | Update_knowledge string knowledge_data
  | Vector_delete string string
  | Delete_file string
  | Vector_delete_collection string
  | Delete_knowledge string

text \<open>
  The knowledge table maps the primary key to the row's \<^verbatim>\<open>data\<close> column, the file table
  maps a file id to its record, the vector database maps a collection name to its
  entries (file id and chunk), and the storage provider maps a locator to a blob.
\<close>

record state =
  knowledges :: "string \<rightharpoonup> knowledge_data option"
  files :: "string \<rightharpoonup> file_model"
  vector_db :: "string \<rightharpoonup> (string \<times> string) list"
  blobs :: "string \<rightharpoonup> bytes"
  calls :: "call list"

text \<open>
  Modelled from the spec: \<^verbatim>\<open>Knowledges.get_knowledge_by_id\<close> of
  \<^verbatim>\<open>open_webui.apps.webui.models.knowledge\<close>, the \<open>get(id) -> Collection | None\<close> of
  the Knowledge Record Store.
\<close>

definition Knowledges_get_knowledge_by_id :: "string \<Rightarrow> state \<Rightarrow> knowledge_model option" where
  "Knowledges_get_knowledge_by_id kid s =
     (case knowledges s kid of
        None \<Rightarrow> None
      | Some d \<Rightarrow> Some \<lparr>knowledge_id = kid, knowledge_data = d\<rparr>)"

text \<open>
  Modelled from the spec: \<^verbatim>\<open>Knowledges.update_knowledge_by_id\<close> called with
  \<^verbatim>\<open>KnowledgeUpdateForm(data=data)\<close>, the \<open>update(id, partialForm) -> Collection | None\<close>
  of the Knowledge Record Store: it replaces the data of an existing record and
  returns the record, and returns \<^verbatim>\<open>None\<close> when there is no such collection.
\<close>

definition Knowledges_update_knowledge_by_id ::
  "string \<Rightarrow> knowledge_data \<Rightarrow> state \<Rightarrow> knowledge_model option \<times> state" where
  "Knowledges_update_knowledge_by_id kid d s =
     (let s' = s\<lparr>calls := calls s @ [Update_knowledge kid d]\<rparr> in
      case knowledges s kid of
        None \<Rightarrow> (None, s')
      | Some _ \<Rightarrow>
          (Some \<lparr>knowledge_id = kid, knowledge_data = Some d\<rparr>,
           s'\<lparr>knowledges := (knowledges s)(kid \<mapsto> Some d)\<rparr>))"

text \<open>
  Modelled from the spec: \<^verbatim>\<open>Knowledges.delete_knowledge_by_id\<close>, the
  \<open>delete(id) -> bool\<close> of the Knowledge Record Store, true iff a record existed and
  was removed.
\<close>

definition Knowledges_delete_knowledge_by_id :: "string \<Rightarrow> state \<Rightarrow> bool \<times> state" where
  "Knowledges_delete_knowledge_by_id kid s =
     (knowledges s kid \<noteq> None,
      s\<lparr>knowledges := (knowledges s)(kid := None),
        calls := calls s @ [Delete_knowledge kid]\<rparr>)"

text \<open>
  Modelled from the spec: \<^verbatim>\<open>Files.get_file_by_id\<close> of
  \<^verbatim>\<open>open_webui.apps.webui.models.files\<close>, the lookup of the File Record Store.
\<close>

definition Files_get_file_by_id :: "string \<Rightarrow> state \<Rightarrow> file_model option" where
  "Files_get_file_by_id fid s = files s fid"

text \<open>
  Modelled from the spec: \<^verbatim>\<open>Files.get_files_by_ids\<close>, the resolved file records of the
  member ids.
\<close>

definition Files_get_files_by_ids :: "string list \<Rightarrow> state \<Rightarrow> file_model list" where
  "Files_get_files_by_ids ids s = List.map_filter (\<lambda>i. Files_get_file_by_id i s) ids"

text \<open>
  Modelled from the spec: \<^verbatim>\<open>Files.delete_file_by_id\<close>, the deletion helper of the File
  Record Store: it deletes the file's blob from the storage provider and the file's
  record.
\<close>

definition Files_delete_file_by_id :: "string \<Rightarrow> state \<Rightarrow> state" where
  "Files_delete_file_by_id fid s =
     (let s' = s\<lparr>calls := calls s @ [Delete_file fid]\<rparr> in
      case files s fid of
        None \<Rightarrow> s'
      | Some f \<Rightarrow> s'\<lparr>files := (files s)(fid := None),
                     blobs := (blobs s)(file_locator f := None)\<rparr>)"

text \<open>
  Modelled from the spec: \<^verbatim>\<open>VECTOR_DB_CLIENT.delete\<close> of
  \<^verbatim>\<open>open_webui.apps.retrieval.vector.connector\<close> with the filter
  \<^verbatim>\<open>{"file_id": file_id}\<close>: it deletes all entries of the collection's index tagged
  with the file id, and is no error if there are none.
\<close>

definition VECTOR_DB_CLIENT_delete :: "string \<Rightarrow> string \<Rightarrow> state \<Rightarrow> state" where
  "VECTOR_DB_CLIENT_delete collection_name fid s =
     (let s' = s\<lparr>calls := calls s @ [Vector_delete collection_name fid]\<rparr> in
      case vector_db s collection_name of
        None \<Rightarrow> s'
      | Some es \<Rightarrow>
          s'\<lparr>vector_db := (vector_db s)(collection_name \<mapsto> filter (\<lambda>e. fst e \<noteq> fid) es)\<rparr>)"

text \<open>
  Modelled from the spec: \<^verbatim>\<open>VECTOR_DB_CLIENT.delete_collection\<close>, the deletion of the
  vector index of a collection, idempotent if the index is absent.
\<close>

definition VECTOR_DB_CLIENT_delete_collection :: "string \<Rightarrow> state \<Rightarrow> state" where
  "VECTOR_DB_CLIENT_delete_collection collection_name s =
     s\<lparr>vector_db := (vector_db s)(collection_name := None),
       calls := calls s @ [Vector_delete_collection collection_name]\<rparr>"

text \<open>
  Modelled from the spec: \<^verbatim>\<open>process_file\<close> of \<^verbatim>\<open>open_webui.apps.retrieval.main\<close>, the
  indexing of a file's content into the vector index of a collection. What it writes
  and whether it raises is a parameter: an indexer is given the file id, the
  collection name and the state it reads, and returns the text of the exception it
  raises (\<open>None\<close> when it returns normally) and the vector database it leaves.
\<close>

type_synonym indexer =
  "string \<Rightarrow> string \<Rightarrow> state \<Rightarrow> string option \<times> (string \<rightharpoonup> (string \<times> string) list)"

definition process_file :: "indexer \<Rightarrow> string \<Rightarrow> string \<Rightarrow> state \<Rightarrow> string option \<times> state" where
  "process_file ix fid collection_name s =
     (fst (ix fid collection_name s),
      s\<lparr>vector_db := snd (ix fid collection_name s),
        calls := calls s @ [Process_file fid collection_name]\<rparr>)"

section \<open>The knowledge router\<close>

record knowledge_files_response =
  response_knowledge :: knowledge_model
  response_files :: "file_model list"

text \<open>\<^verbatim>\<open>not file.data\<close>: the data is \<^verbatim>\<open>None\<close> or an empty dictionary.\<close>

definition not_data :: "file_data option \<Rightarrow> bool" where
  "not_data d = (case d of None \<Rightarrow> True | Some kvs \<Rightarrow> kvs = [])"

text \<open>\<^verbatim>\<open>knowledge.data or {}\<close>\<close>

definition data_or_empty :: "knowledge_data option \<Rightarrow> knowledge_data" where
  "data_or_empty d = (case d of None \<Rightarrow> [] | Some kvs \<Rightarrow> kvs)"

text \<open>\<^verbatim>\<open>data.get("file_ids", [])\<close>\<close>

definition get_file_ids :: "knowledge_data \<Rightarrow> string list" where
  "get_file_ids d = (case map_of d ''file_ids'' of None \<Rightarrow> [] | Some l \<Rightarrow> l)"

text \<open>
  \<^verbatim>\<open>add_file_to_knowledge_by_id\<close>. The knowledge is fetched first and tested last; the
  exception of \<^verbatim>\<open>process_file\<close> is caught and re-raised with its text as the detail.
\<close>

definition add_file_to_knowledge_by_id ::
  "indexer \<Rightarrow> string \<Rightarrow> string \<Rightarrow> state \<Rightarrow> (exn + knowledge_files_response) \<times> state" where
  "add_file_to_knowledge_by_id ix kid fid s =
     (let knowledge = Knowledges_get_knowledge_by_id kid s;
          file = Files_get_file_by_id fid s
      in case file of
        None \<Rightarrow> (Inl (HTTPException HTTP_400_BAD_REQUEST NOT_FOUND), s)
      | Some f \<Rightarrow>
          if not_data (file_data f)
          then (Inl (HTTPException HTTP_400_BAD_REQUEST FILE_NOT_PROCESSED), s)
          else
            (case process_file ix fid kid s of
               (Some e, s1) \<Rightarrow> (Inl (HTTPException HTTP_400_BAD_REQUEST (Str e)), s1)
             | (None, s1) \<Rightarrow>
                 (case knowledge of
                    Some k \<Rightarrow>
                      (let data = data_or_empty (knowledge_data k);
                           file_ids = get_file_ids data
                       in if fid \<notin> set file_ids
                          then
                            (let file_ids' = file_ids @ [fid];
                                 data' = AList.update ''file_ids'' file_ids' data
                             in case Knowledges_update_knowledge_by_id kid data' s1 of
                                  (Some k', s2) \<Rightarrow>
                                    (Inr \<lparr>response_knowledge = k',
                                          response_files = Files_get_files_by_ids file_ids' s2\<rparr>, s2)
                                | (None, s2) \<Rightarrow>
                                    (Inl (HTTPException HTTP_400_BAD_REQUEST (DEFAULT ''knowledge'')), s2))
                          else (Inl (HTTPException HTTP_400_BAD_REQUEST (DEFAULT ''file_id'')), s1))
                  | None \<Rightarrow> (Inl (HTTPException HTTP_400_BAD_REQUEST NOT_FOUND), s1))))"

text \<open>
  \<^verbatim>\<open>remove_file_from_knowledge_by_id\<close>. The vector entries are deleted in the collection
  named \<^verbatim>\<open>knowledge.id\<close>, an attribute read that raises when \<^verbatim>\<open>knowledge\<close> is \<^verbatim>\<open>None\<close>;
  the test of \<^verbatim>\<open>knowledge\<close> comes after the two deletions.
\<close>

definition remove_file_from_knowledge_by_id ::
  "string \<Rightarrow> string \<Rightarrow> state \<Rightarrow> (exn + knowledge_files_response) \<times> state" where
  "remove_file_from_knowledge_by_id kid fid s =
     (let knowledge = Knowledges_get_knowledge_by_id kid s;
          file = Files_get_file_by_id fid s
      in case file of
        None \<Rightarrow> (Inl (HTTPException HTTP_400_BAD_REQUEST NOT_FOUND), s)
      | Some f \<Rightarrow>
          (case knowledge of
             None \<Rightarrow> (Inl (AttributeError ''id''), s)
           | Some k0 \<Rightarrow>
               (let s1 = VECTOR_DB_CLIENT_delete (knowledge_id k0) fid s;
                    s2 = Files_delete_file_by_id fid s1
                in case knowledge of
                     Some k \<Rightarrow>
                       (let data = data_or_empty (knowledge_data k);
                            file_ids = get_file_ids data
                        in if fid \<in> set file_ids
                           then
                             (let file_ids' = remove1 fid file_ids;
                                  data' = AList.update ''file_ids'' file_ids' data
                              in case Knowledges_update_knowledge_by_id kid data' s2 of
                                   (Some k', s3) \<Rightarrow>
                                     (Inr \<lparr>response_knowledge = k',
                                           response_files = Files_get_files_by_ids file_ids' s3\<rparr>, s3)
                                 | (None, s3) \<Rightarrow>
                                     (Inl (HTTPException HTTP_400_BAD_REQUEST (DEFAULT ''knowledge'')), s3))
                           else (Inl (HTTPException HTTP_400_BAD_REQUEST (DEFAULT ''file_id'')), s2))
                   | None \<Rightarrow> (Inl (HTTPException HTTP_400_BAD_REQUEST NOT_FOUND), s2))))"

text \<open>\<^verbatim>\<open>delete_knowledge_by_id\<close> of the router.\<close>

definition delete_knowledge_by_id :: "string \<Rightarrow> state \<Rightarrow> (exn + bool) \<times> state" where
  "delete_knowledge_by_id kid s =
     (let s1 = VECTOR_DB_CLIENT_delete_collection kid s;
          (result, s2) = Knowledges_delete_knowledge_by_id kid s1
      in (Inr result, s2))"

text \<open>
  The stored membership list of a collection, read as the route \<^verbatim>\<open>get_knowledge_by_id\<close> of the
  router reads it: \<^verbatim>\<open>knowledge.data.get("file_ids", []) if knowledge.data else []\<close>, and
  empty when there is no record.
\<close>

definition stored_file_ids :: "string \<Rightarrow> state \<Rightarrow> string list" where
  "stored_file_ids kid s =
     (case knowledges s kid of
        None \<Rightarrow> []
      | Some d \<Rightarrow> get_file_ids (data_or_empty d))"

text \<open>The file ids that tag an entry of a collection's vector index.\<close>

definition indexed_file_ids :: "string \<Rightarrow> state \<Rightarrow> string set" where
  "indexed_file_ids collection_name s =
     (case vector_db s collection_name of
        None \<Rightarrow> {}
      | Some es \<Rightarrow> fst ` set es)"

section \<open>The S3 storage provider\<close>

text \<open>
  The client of the object store (\<^verbatim>\<open>aioboto3\<close>, outside the repository): objects are
  held by bucket and key, every request is recorded, and \<open>faults\<close> tells for a request
  whether the backend rejects it, and then with which text. Reading a key that holds no
  object fails; deleting one succeeds.
\<close>

datatype s3_request =
    PutObject string string bytes
  | GetObject string string
  | DeleteObject string string

record s3 =
  objects :: "string \<times> string \<rightharpoonup> bytes"
  requests :: "s3_request list"

type_synonym faults = "s3_request \<Rightarrow> string option"

definition put_object :: "faults \<Rightarrow> string \<Rightarrow> string \<Rightarrow> bytes \<Rightarrow> s3 \<Rightarrow> string option \<times> s3" where
  "put_object faults bucket key body s =
     (let s' = s\<lparr>requests := requests s @ [PutObject bucket key body]\<rparr> in
      case faults (PutObject bucket key body) of
        Some e \<Rightarrow> (Some e, s')
      | None \<Rightarrow> (None, s'\<lparr>objects := (objects s)((bucket, key) \<mapsto> body)\<rparr>))"

definition get_object :: "faults \<Rightarrow> string \<Rightarrow> string \<Rightarrow> s3 \<Rightarrow> (string + bytes) \<times> s3" where
  "get_object faults bucket key s =
     (let s' = s\<lparr>requests := requests s @ [GetObject bucket key]\<rparr> in
      case faults (GetObject bucket key) of
        Some e \<Rightarrow> (Inl e, s')
      | None \<Rightarrow>
          (case objects s (bucket, key) of
             None \<Rightarrow> (Inl ''NoSuchKey'', s')
           | Some body \<Rightarrow> (Inr body, s')))"

definition delete_object :: "faults \<Rightarrow> string \<Rightarrow> string \<Rightarrow> s3 \<Rightarrow> string option \<times> s3" where
  "delete_object faults bucket key s =
     (let s' = s\<lparr>requests := requests s @ [DeleteObject bucket key]\<rparr> in
      case faults (DeleteObject bucket key) of
        Some e \<Rightarrow> (Some e, s')
      | None \<Rightarrow> (None, s'\<lparr>objects := (objects s)((bucket, key) := None)\<rparr>))"

text \<open>
  \<^verbatim>\<open>str.split(sep)\<close> and \<^verbatim>\<open>str.split(sep, 1)\<close> for a separator that is not empty (the
  source splits at the literals \<^verbatim>\<open>"//"\<close> and \<^verbatim>\<open>"/"\<close>): the occurrences are found from
  the left and do not overlap; \<open>cur\<close> is the piece read so far.
\<close>

fun split_from :: "string \<Rightarrow> string \<Rightarrow> string \<Rightarrow> string list" where
  "split_from sep cur [] = [cur]"
| "split_from sep cur (c # cs) =
     (if sep \<noteq> [] \<and> take (length sep) (c # cs) = sep
      then cur # split_from sep [] (drop (length sep) (c # cs))
      else split_from sep (cur @ [c]) cs)"

fun split1_from :: "string \<Rightarrow> string \<Rightarrow> string \<Rightarrow> string list" where
  "split1_from sep cur [] = [cur]"
| "split1_from sep cur (c # cs) =
     (if sep \<noteq> [] \<and> take (length sep) (c # cs) = sep
      then [cur, drop (length sep) (c # cs)]
      else split1_from sep (cur @ [c]) cs)"

definition split :: "string \<Rightarrow> string \<Rightarrow> string list" where
  "split sep s = split_from sep [] s"

definition split1 :: "string \<Rightarrow> string \<Rightarrow> string list" where
  "split1 sep s = split1_from sep [] s"

text \<open>
  \<^verbatim>\<open>bucket_name, key = file_path.split("//")[1].split("/", 1)\<close>, as \<^verbatim>\<open>get_file\<close> and
  \<^verbatim>\<open>as_local_file\<close> both write it: the index raises \<^verbatim>\<open>IndexError\<close> when there is no
  second piece, the unpacking raises \<^verbatim>\<open>ValueError\<close> when there is no \<^verbatim>\<open>"/"\<close> to split at.
  \<open>Inl\<close> carries the text of the exception.
\<close>

definition parse_locator :: "string \<Rightarrow> string + string \<times> string" where
  "parse_locator file_path =
     (case split ''//'' file_path of
        _ # piece # _ \<Rightarrow>
          (case split1 ''/'' piece of
             [bucket, key] \<Rightarrow> Inr (bucket, key)
           | _ \<Rightarrow> Inl ''not enough values to unpack (expected 2, got 1)'')
      | _ \<Rightarrow> Inl ''list index out of range'')"

text \<open>
  The two attributes of the provider that the methods read, as the strings the
  configuration gives them.
\<close>

record S3StorageProvider =
  bucket_name :: string
  bucket_prefix :: string

text \<open>The key \<^verbatim>\<open>f"{self.bucket_prefix}/{filename}"\<close> of \<^verbatim>\<open>upload_file\<close>.\<close>

definition object_key :: "S3StorageProvider \<Rightarrow> string \<Rightarrow> string" where
  "object_key self filename = bucket_prefix self @ ''/'' @ filename"

text \<open>The locator \<^verbatim>\<open>f"s3://{self.bucket_name}/{self.bucket_prefix}/{filename}"\<close>.\<close>

definition locator :: "S3StorageProvider \<Rightarrow> string \<Rightarrow> string" where
  "locator self filename =
     ''s3://'' @ bucket_name self @ ''/'' @ bucket_prefix self @ ''/'' @ filename"

text \<open>\<^verbatim>\<open>upload_file\<close>; the file is given by the bytes that \<^verbatim>\<open>file.read()\<close> returns.\<close>

definition upload_file ::
  "S3StorageProvider \<Rightarrow> faults \<Rightarrow> bytes \<Rightarrow> string \<Rightarrow> s3 \<Rightarrow> (exn + bytes \<times> string) \<times> s3" where
  "upload_file self faults contents filename s =
     (if contents = [] then (Inl (ValueError EMPTY_CONTENT), s)
      else
        (case put_object faults (bucket_name self) (object_key self filename) contents s of
           (Some e, s') \<Rightarrow> (Inl (RuntimeError (''Error uploading file to S3: '' @ e)), s')
         | (None, s') \<Rightarrow> (Inr (contents, locator self filename), s')))"

text \<open>
  \<^verbatim>\<open>get_file\<close>, read to its end: the result is the concatenation of the chunks the
  generator yields, the body of the object.
\<close>

definition get_file :: "faults \<Rightarrow> string \<Rightarrow> s3 \<Rightarrow> (exn + bytes) \<times> s3" where
  "get_file faults file_path s =
     (case parse_locator file_path of
        Inl e \<Rightarrow>
          (Inl (RuntimeError (''Error downloading file '' @ file_path @ '' from S3: '' @ e)), s)
      | Inr (bucket, key) \<Rightarrow>
          (case get_object faults bucket key s of
             (Inl e, s') \<Rightarrow>
               (Inl (RuntimeError (''Error downloading file '' @ file_path @ '' from S3: '' @ e)), s')
           | (Inr body, s') \<Rightarrow> (Inr body, s')))"

text \<open>\<^verbatim>\<open>delete_file\<close>\<close>

definition delete_file ::
  "S3StorageProvider \<Rightarrow> faults \<Rightarrow> string \<Rightarrow> s3 \<Rightarrow> (exn + unit) \<times> s3" where
  "delete_file self faults filename s =
     (case delete_object faults (bucket_name self) filename s of
        (Some e, s') \<Rightarrow>
          (Inl (RuntimeError (''Error deleting file '' @ filename @ '' from S3: '' @ e)), s')
      | (None, s') \<Rightarrow> (Inr (), s'))"

section \<open>Example states\<close>

definition processed_file :: file_model where
  "processed_file = \<lparr>file_data = Some [(''content'', ''hello'')], file_locator = ''s3://bkt/pre/f1.txt''\<rparr>"

definition unprocessed_file :: file_model where
  "unprocessed_file = \<lparr>file_data = None, file_locator = ''s3://bkt/pre/f1.txt''\<rparr>"

text \<open>A file record \<open>f1\<close> with its blob and vector entries, and no knowledge record at all.\<close>

definition state_no_collection :: state where
  "state_no_collection =
     \<lparr>knowledges = Map.empty,
      files = [''f1'' \<mapsto> processed_file],
      vector_db = [''k1'' \<mapsto> [(''f1'', ''hello'')]],
      blobs = [''s3://bkt/pre/f1.txt'' \<mapsto> ''hello''],
      calls = []\<rparr>"

text \<open>A collection \<open>k1\<close> and no file record.\<close>

definition state_no_file :: state where
  "state_no_file =
     \<lparr>knowledges = [''k1'' \<mapsto> None],
      files = Map.empty,
      vector_db = Map.empty,
      blobs = Map.empty,
      calls = []\<rparr>"

text \<open>A collection \<open>k1\<close> and a file \<open>f1\<close> that has no extracted content yet.\<close>

definition state_unprocessed :: state where
  "state_unprocessed =
     \<lparr>knowledges = [''k1'' \<mapsto> None],
      files = [''f1'' \<mapsto> unprocessed_file],
      vector_db = Map.empty,
      blobs = [''s3://bkt/pre/f1.txt'' \<mapsto> ''hello''],
      calls = []\<rparr>"

text \<open>A collection \<open>k1\<close> without members and a processed file \<open>f1\<close>.\<close>

definition state_not_member :: state where
  "state_not_member =
     \<lparr>knowledges = [''k1'' \<mapsto> None],
      files = [''f1'' \<mapsto> processed_file],
      vector_db = [''k1'' \<mapsto> [(''f1'', ''hello'')]],
      blobs = [''s3://bkt/pre/f1.txt'' \<mapsto> ''hello''],
      calls = []\<rparr>"

text \<open>A collection \<open>k1\<close> whose only member is the processed file \<open>f1\<close>.\<close>

definition state_member :: state where
  "state_member =
     \<lparr>knowledges = [''k1'' \<mapsto> Some [(''file_ids'', [''f1''])]],
      files = [''f1'' \<mapsto> processed_file],
      vector_db = [''k1'' \<mapsto> [(''f1'', ''hello'')]],
      blobs = [''s3://bkt/pre/f1.txt'' \<mapsto> ''hello''],
      calls = []\<rparr>"

text \<open>An indexer that adds one entry for the file, and one whose backend is down.\<close>

definition indexer_ok :: indexer where
  "indexer_ok fid collection_name s =
     (None,
      (vector_db s)(collection_name \<mapsto>
         (case vector_db s collection_name of None \<Rightarrow> [] | Some es \<Rightarrow> es) @ [(fid, ''chunk'')]))"

definition indexer_down :: indexer where
  "indexer_down fid collection_name s = (Some ''index down'', vector_db s)"

definition example_provider :: S3StorageProvider where
  "example_provider = \<lparr>bucket_name = ''bkt'', bucket_prefix = ''pre''\<rparr>"

definition empty_s3 :: s3 where
  "empty_s3 = \<lparr>objects = Map.empty, requests = []\<rparr>"

definition no_faults :: faults where
  "no_faults request = None"

definition backend_down :: faults where
  "backend_down request = Some ''timeout''"

text \<open>A provider whose prefix is the empty string.\<close>

definition provider_no_prefix :: S3StorageProvider where
  "provider_no_prefix = \<lparr>bucket_name = ''bkt'', bucket_prefix = []\<rparr>"

text \<open>Two slashes side by side somewhere in a string.\<close>

fun has_double_slash :: "string \<Rightarrow> bool" where
  "has_double_slash (a # b # cs) =
     ((a = CHR ''/'' \<and> b = CHR ''/'') \<or> has_double_slash (b # cs))"
| "has_double_slash _ = False"

section \<open>Facts about the router\<close>

lemma data_or_empty_simps:
  "data_or_empty None = []" "data_or_empty (Some d) = d"
  by (simp_all add: data_or_empty_def)

lemma get_file_ids_update:
  "get_file_ids (AList.update ''file_ids'' l d) = l"
  by (simp add: get_file_ids_def AList.update_conv')

text \<open>A call of \<open>addFile\<close> changes the stored membership list only when it succeeds.\<close>

lemma add_file_stored_unless_success:
  "stored_file_ids c (snd (add_file_to_knowledge_by_id ix kid fid s))
     = (if c = kid \<and> \<not> isl (fst (add_file_to_knowledge_by_id ix kid fid s))
        then stored_file_ids c s @ [fid] else stored_file_ids c s)"
  by (auto simp: data_or_empty_simps get_file_ids_update add_file_to_knowledge_by_id_def
      Files_get_file_by_id_def Knowledges_get_knowledge_by_id_def process_file_def
      Knowledges_update_knowledge_by_id_def stored_file_ids_def Let_def split: option.splits
      prod.splits)

lemma add_file_success_iff:
  "(\<not> isl (fst (add_file_to_knowledge_by_id ix kid fid s))) =
     ((case Files_get_file_by_id fid s of None \<Rightarrow> False | Some f \<Rightarrow> \<not> not_data (file_data f))
      \<and> fst (ix fid kid s) = None \<and> knowledges s kid \<noteq> None
      \<and> fid \<notin> set (stored_file_ids kid s))"
  by (auto simp: data_or_empty_simps get_file_ids_update add_file_to_knowledge_by_id_def
      Files_get_file_by_id_def Knowledges_get_knowledge_by_id_def process_file_def
      Knowledges_update_knowledge_by_id_def stored_file_ids_def Let_def split: option.splits
      prod.splits)

lemma add_file_files:
  "files (snd (add_file_to_knowledge_by_id ix kid fid s)) = files s
   \<and> blobs (snd (add_file_to_knowledge_by_id ix kid fid s)) = blobs s"
  by (auto simp: data_or_empty_simps get_file_ids_update add_file_to_knowledge_by_id_def
      Files_get_file_by_id_def Knowledges_get_knowledge_by_id_def process_file_def
      Knowledges_update_knowledge_by_id_def Let_def split: option.splits prod.splits)

lemma remove_file_stored:
  "stored_file_ids c (snd (remove_file_from_knowledge_by_id kid fid s))
     = (if c = kid \<and> \<not> isl (fst (remove_file_from_knowledge_by_id kid fid s))
        then remove1 fid (stored_file_ids c s) else stored_file_ids c s)"
  by (auto simp: data_or_empty_simps get_file_ids_update remove_file_from_knowledge_by_id_def
      Files_get_file_by_id_def Knowledges_get_knowledge_by_id_def
      Knowledges_update_knowledge_by_id_def VECTOR_DB_CLIENT_delete_def Files_delete_file_by_id_def
      stored_file_ids_def Let_def split: option.splits prod.splits)

lemma delete_knowledge_stored:
  "stored_file_ids c (snd (delete_knowledge_by_id kid s))
     = (if c = kid then [] else stored_file_ids c s)"
  by (simp add: data_or_empty_simps get_file_ids_update delete_knowledge_by_id_def
      VECTOR_DB_CLIENT_delete_collection_def Knowledges_delete_knowledge_by_id_def
      stored_file_ids_def)

text \<open>The two branches of \<open>removeFile\<close> behind the deletions.\<close>

lemma remove_file_not_member:
  assumes "files s fid = Some f" and "knowledges s kid = Some d"
    and "fid \<notin> set (get_file_ids (data_or_empty d))"
  shows "remove_file_from_knowledge_by_id kid fid s
    = (Inl (HTTPException HTTP_400_BAD_REQUEST (DEFAULT ''file_id'')),
       Files_delete_file_by_id fid (VECTOR_DB_CLIENT_delete kid fid s))"
  using assms by (simp add: data_or_empty_simps get_file_ids_update remove_file_from_knowledge_by_id_def Files_get_file_by_id_def
      Knowledges_get_knowledge_by_id_def Let_def)

lemma remove_file_member:
  assumes "files s fid = Some f" and "knowledges s kid = Some d"
    and "fid \<in> set (get_file_ids (data_or_empty d))"
  shows "snd (remove_file_from_knowledge_by_id kid fid s)
    = (Files_delete_file_by_id fid (VECTOR_DB_CLIENT_delete kid fid s))
        \<lparr>calls := calls s @ [Vector_delete kid fid, Delete_file fid,
            Update_knowledge kid
              (AList.update ''file_ids'' (remove1 fid (get_file_ids (data_or_empty d)))
                 (data_or_empty d))],
         knowledges := (knowledges s)(kid \<mapsto>
            Some (AList.update ''file_ids'' (remove1 fid (get_file_ids (data_or_empty d)))
                 (data_or_empty d)))\<rparr>
     \<and> \<not> isl (fst (remove_file_from_knowledge_by_id kid fid s))"
  using assms
  by (simp add: data_or_empty_simps get_file_ids_update remove_file_from_knowledge_by_id_def
      Files_get_file_by_id_def Knowledges_get_knowledge_by_id_def
      Knowledges_update_knowledge_by_id_def Files_delete_file_by_id_def VECTOR_DB_CLIENT_delete_def
      Let_def split: option.splits)

lemma deletions_done:
  assumes "files s fid = Some f"
  shows "files (Files_delete_file_by_id fid (VECTOR_DB_CLIENT_delete kid fid s)) fid = None"
    and "blobs (Files_delete_file_by_id fid (VECTOR_DB_CLIENT_delete kid fid s)) (file_locator f) = None"
    and "fid \<notin> indexed_file_ids kid (Files_delete_file_by_id fid (VECTOR_DB_CLIENT_delete kid fid s))"
    and "calls (Files_delete_file_by_id fid (VECTOR_DB_CLIENT_delete kid fid s))
          = calls s @ [Vector_delete kid fid, Delete_file fid]"
    and "knowledges (Files_delete_file_by_id fid (VECTOR_DB_CLIENT_delete kid fid s)) = knowledges s"
  using assms
  by (auto simp: Files_delete_file_by_id_def VECTOR_DB_CLIENT_delete_def indexed_file_ids_def
      Let_def split: option.splits)

lemma remove_file_conflict_only_if:
  assumes "fst (remove_file_from_knowledge_by_id kid fid s)
      = Inl (HTTPException HTTP_400_BAD_REQUEST (DEFAULT ''file_id''))"
  shows "\<exists>f d. files s fid = Some f \<and> knowledges s kid = Some d
      \<and> fid \<notin> set (get_file_ids (data_or_empty d))"
proof (cases "files s fid")
  case None
  then show ?thesis
    using assms by (simp add: data_or_empty_simps get_file_ids_update remove_file_from_knowledge_by_id_def Files_get_file_by_id_def)
next
  case (Some f)
  show ?thesis
  proof (cases "knowledges s kid")
    case None
    then show ?thesis
      using assms Some by (simp add: data_or_empty_simps get_file_ids_update remove_file_from_knowledge_by_id_def Files_get_file_by_id_def
          Knowledges_get_knowledge_by_id_def)
  next
    case d: (Some d)
    show ?thesis
    proof (cases "fid \<in> set (get_file_ids (data_or_empty d))")
      case True
      then show ?thesis
        using remove_file_member [OF Some d True] assms by simp
    next
      case False
      then show ?thesis
        using Some d by simp
    qed
  qed
qed

section \<open>Facts about the locator\<close>

lemma locator_not_key: "locator self filename \<noteq> object_key self filename"
proof
  assume "locator self filename = object_key self filename"
  then have "length (locator self filename) = length (object_key self filename)"
    by simp
  then show False
    by (simp add: locator_def object_key_def)
qed

lemma split_from_no_double_slash:
  "\<not> has_double_slash s \<Longrightarrow> split_from ''//'' cur s = [cur @ s]"
proof (induction s arbitrary: cur)
  case Nil
  then show ?case by simp
next
  case (Cons c cs)
  then show ?case
    by (cases cs) auto
qed

lemma split1_from_first_slash:
  "CHR ''/'' \<notin> set b \<Longrightarrow> split1_from ''/'' cur (b @ CHR ''/'' # k) = [cur @ b, k]"
  by (induction b arbitrary: cur) auto

text \<open>
  Where the bucket name has no slash and bucket, prefix and file name put no two slashes
  side by side, the parse of \<^verbatim>\<open>get_file\<close> inverts the locator of \<^verbatim>\<open>upload_file\<close>.
\<close>

lemma parse_locator_locator:
  assumes "CHR ''/'' \<notin> set (bucket_name self)"
    and "\<not> has_double_slash (bucket_name self @ ''/'' @ object_key self filename)"
  shows "parse_locator (locator self filename)
    = Inr (bucket_name self, object_key self filename)"
proof -
  have "split ''//'' (locator self filename)
      = [''s3:'', bucket_name self @ ''/'' @ object_key self filename]"
    using assms(2)
      split_from_no_double_slash [of "bucket_name self @ ''/'' @ object_key self filename" "[]"]
    by (simp add: split_def locator_def object_key_def)
  moreover have "split1 ''/'' (bucket_name self @ ''/'' @ object_key self filename)
      = [bucket_name self, object_key self filename]"
    using split1_from_first_slash [OF assms(1), of "[]"] by (simp add: split1_def)
  ultimately show ?thesis
    by (simp add: parse_locator_def)
qed

section \<open>Removing a file from a collection that has no record\<close>

text \<open>
  C1. The claim is that \<open>removeFile\<close>, for a file record that exists and a collection id
  that has no record, fails with the typed result NotFound. The router reads
  \<^verbatim>\<open>knowledge.id\<close> before it tests \<^verbatim>\<open>knowledge\<close>: at the state with the file \<open>f1\<close> and no
  collection the call ends in an uncaught \<open>AttributeError\<close>, not in the
  \<open>HTTPException\<close> with \<open>NOT_FOUND\<close>, and nothing has been deleted.
\<close>

theorem remove_file_missing_collection_raises:
  "Files_get_file_by_id ''f1'' state_no_collection = Some processed_file
   \<and> Knowledges_get_knowledge_by_id ''k1'' state_no_collection = None
   \<and> remove_file_from_knowledge_by_id ''k1'' ''f1'' state_no_collection
       = (Inl (AttributeError ''id''), state_no_collection)
   \<and> fst (remove_file_from_knowledge_by_id ''k1'' ''f1'' state_no_collection)
       \<noteq> Inl (HTTPException HTTP_400_BAD_REQUEST NOT_FOUND)"
  by (simp add: data_or_empty_simps get_file_ids_update remove_file_from_knowledge_by_id_def
      Files_get_file_by_id_def Knowledges_get_knowledge_by_id_def state_no_collection_def)

section \<open>The order of the checks of addFile\<close>

text \<open>
  C2, as amended. \<open>addFile\<close> checks in this order: (1) the file record exists, else the
  exception with status 400 and detail \<open>NOT_FOUND\<close>, and nothing is written; (2) the file
  is processed, else \<open>FILE_NOT_PROCESSED\<close>, and nothing is written; (3) the indexing
  returns normally, else the detail is the text of its exception; (4) the collection
  record exists, else \<open>NOT_FOUND\<close> again, the same exception as in (1), and the index has
  been written by then; (5) the file id is not a member yet, else \<open>DEFAULT "file_id"\<close>.
  When all five hold the call succeeds and the file id is appended to the stored list.
\<close>

theorem add_file_check_order:
  "(Files_get_file_by_id fid s = None \<longrightarrow>
      add_file_to_knowledge_by_id ix kid fid s
        = (Inl (HTTPException HTTP_400_BAD_REQUEST NOT_FOUND), s))
   \<and> (Files_get_file_by_id fid s = Some f \<and> not_data (file_data f) \<longrightarrow>
      add_file_to_knowledge_by_id ix kid fid s
        = (Inl (HTTPException HTTP_400_BAD_REQUEST FILE_NOT_PROCESSED), s))
   \<and> (Files_get_file_by_id fid s = Some f \<and> \<not> not_data (file_data f)
        \<and> fst (ix fid kid s) = Some e \<longrightarrow>
      fst (add_file_to_knowledge_by_id ix kid fid s)
        = Inl (HTTPException HTTP_400_BAD_REQUEST (Str e)))
   \<and> (Files_get_file_by_id fid s = Some f \<and> \<not> not_data (file_data f)
        \<and> fst (ix fid kid s) = None \<and> Knowledges_get_knowledge_by_id kid s = None \<longrightarrow>
      fst (add_file_to_knowledge_by_id ix kid fid s)
        = Inl (HTTPException HTTP_400_BAD_REQUEST NOT_FOUND)
      \<and> vector_db (snd (add_file_to_knowledge_by_id ix kid fid s)) = snd (ix fid kid s)
      \<and> calls (snd (add_file_to_knowledge_by_id ix kid fid s))
          = calls s @ [Process_file fid kid])
   \<and> (Files_get_file_by_id fid s = Some f \<and> \<not> not_data (file_data f)
        \<and> fst (ix fid kid s) = None \<and> Knowledges_get_knowledge_by_id kid s = Some k
        \<and> fid \<in> set (get_file_ids (data_or_empty (knowledge_data k))) \<longrightarrow>
      fst (add_file_to_knowledge_by_id ix kid fid s)
        = Inl (HTTPException HTTP_400_BAD_REQUEST (DEFAULT ''file_id'')))
   \<and> (Files_get_file_by_id fid s = Some f \<and> \<not> not_data (file_data f)
        \<and> fst (ix fid kid s) = None \<and> Knowledges_get_knowledge_by_id kid s = Some k
        \<and> fid \<notin> set (get_file_ids (data_or_empty (knowledge_data k))) \<longrightarrow>
      \<not> isl (fst (add_file_to_knowledge_by_id ix kid fid s))
      \<and> stored_file_ids kid (snd (add_file_to_knowledge_by_id ix kid fid s))
          = stored_file_ids kid s @ [fid])"
  by (auto simp: data_or_empty_simps get_file_ids_update add_file_to_knowledge_by_id_def
      Files_get_file_by_id_def Knowledges_get_knowledge_by_id_def process_file_def
      Knowledges_update_knowledge_by_id_def stored_file_ids_def Let_def split: option.splits
      prod.splits)

text \<open>
  C2, the theorem at the example states: one call for each of the five failures and one
  that succeeds.
\<close>

theorem add_file_check_order_witness:
  "add_file_to_knowledge_by_id indexer_ok ''k1'' ''f1'' state_no_file
     = (Inl (HTTPException HTTP_400_BAD_REQUEST NOT_FOUND), state_no_file)
   \<and> add_file_to_knowledge_by_id indexer_ok ''k1'' ''f1'' state_unprocessed
     = (Inl (HTTPException HTTP_400_BAD_REQUEST FILE_NOT_PROCESSED), state_unprocessed)
   \<and> fst (add_file_to_knowledge_by_id indexer_down ''k1'' ''f1'' state_no_collection)
     = Inl (HTTPException HTTP_400_BAD_REQUEST (Str ''index down''))
   \<and> fst (add_file_to_knowledge_by_id indexer_ok ''k1'' ''f1'' state_no_collection)
     = Inl (HTTPException HTTP_400_BAD_REQUEST NOT_FOUND)
   \<and> vector_db (snd (add_file_to_knowledge_by_id indexer_ok ''k1'' ''f1'' state_no_collection)) ''k1''
     = Some [(''f1'', ''hello''), (''f1'', ''chunk'')]
   \<and> fst (add_file_to_knowledge_by_id indexer_ok ''k1'' ''f1'' state_member)
     = Inl (HTTPException HTTP_400_BAD_REQUEST (DEFAULT ''file_id''))
   \<and> stored_file_ids ''k1'' (snd (add_file_to_knowledge_by_id indexer_ok ''k1'' ''f1'' state_not_member))
     = [''f1'']"
proof -
  have file_gone: "Files_get_file_by_id ''f1'' state_no_file = None"
    by (simp add: Files_get_file_by_id_def state_no_file_def)
  have unprocessed: "Files_get_file_by_id ''f1'' state_unprocessed = Some unprocessed_file"
    "not_data (file_data unprocessed_file)"
    by (simp_all add: Files_get_file_by_id_def state_unprocessed_def unprocessed_file_def
        not_data_def)
  have processed: "\<not> not_data (file_data processed_file)"
    by (simp add: processed_file_def not_data_def)
  have nc: "Files_get_file_by_id ''f1'' state_no_collection = Some processed_file"
    "Knowledges_get_knowledge_by_id ''k1'' state_no_collection = None"
    "fst (indexer_down ''f1'' ''k1'' state_no_collection) = Some ''index down''"
    "fst (indexer_ok ''f1'' ''k1'' state_no_collection) = None"
    "snd (indexer_ok ''f1'' ''k1'' state_no_collection) ''k1''
       = Some [(''f1'', ''hello''), (''f1'', ''chunk'')]"
    by (simp_all add: data_or_empty_simps get_file_ids_update Files_get_file_by_id_def
        Knowledges_get_knowledge_by_id_def state_no_collection_def indexer_down_def indexer_ok_def)
  have m: "Files_get_file_by_id ''f1'' state_member = Some processed_file"
    "Knowledges_get_knowledge_by_id ''k1'' state_member
       = Some \<lparr>knowledge_id = ''k1'', knowledge_data = Some [(''file_ids'', [''f1''])]\<rparr>"
    "fst (indexer_ok ''f1'' ''k1'' state_member) = None"
    by (simp_all add: data_or_empty_simps get_file_ids_update Files_get_file_by_id_def
        Knowledges_get_knowledge_by_id_def state_member_def indexer_ok_def)
  have nm: "Files_get_file_by_id ''f1'' state_not_member = Some processed_file"
    "Knowledges_get_knowledge_by_id ''k1'' state_not_member
       = Some \<lparr>knowledge_id = ''k1'', knowledge_data = None\<rparr>"
    "fst (indexer_ok ''f1'' ''k1'' state_not_member) = None"
    "stored_file_ids ''k1'' state_not_member = []"
    by (simp_all add: data_or_empty_simps get_file_ids_update Files_get_file_by_id_def
        Knowledges_get_knowledge_by_id_def state_not_member_def indexer_ok_def stored_file_ids_def
        get_file_ids_def)
  show ?thesis
    using add_file_check_order [where s = state_no_file and fid = "''f1''" and kid = "''k1''"
        and ix = indexer_ok]
      add_file_check_order [where s = state_unprocessed and fid = "''f1''" and kid = "''k1''"
        and ix = indexer_ok and f = unprocessed_file]
      add_file_check_order [where s = state_no_collection and fid = "''f1''" and kid = "''k1''"
        and ix = indexer_down and f = processed_file and e = "''index down''"]
      add_file_check_order [where s = state_no_collection and fid = "''f1''" and kid = "''k1''"
        and ix = indexer_ok and f = processed_file]
      add_file_check_order [where s = state_member and fid = "''f1''" and kid = "''k1''"
        and ix = indexer_ok and f = processed_file
        and k = "\<lparr>knowledge_id = ''k1'', knowledge_data = Some [(''file_ids'', [''f1''])]\<rparr>"]
      add_file_check_order [where s = state_not_member and fid = "''f1''" and kid = "''k1''"
        and ix = indexer_ok and f = processed_file
        and k = "\<lparr>knowledge_id = ''k1'', knowledge_data = None\<rparr>"]
    by (simp add: data_or_empty_simps get_file_ids_update file_gone unprocessed processed nc m
        nm get_file_ids_def)
qed

text \<open>
  C2, against the claim as it stands, that each of the five checks yields a failure of
  its own: a call that fails at check (1), the file record missing, and a call that
  fails at check (4), the collection record missing, raise the same exception.
\<close>

theorem add_file_not_found_twice:
  "Files_get_file_by_id ''f1'' state_no_file = None
   \<and> Knowledges_get_knowledge_by_id ''k1'' state_no_file
       = Some \<lparr>knowledge_id = ''k1'', knowledge_data = None\<rparr>
   \<and> Files_get_file_by_id ''f1'' state_no_collection = Some processed_file
   \<and> Knowledges_get_knowledge_by_id ''k1'' state_no_collection = None
   \<and> fst (add_file_to_knowledge_by_id indexer_ok ''k1'' ''f1'' state_no_file)
       = Inl (HTTPException HTTP_400_BAD_REQUEST NOT_FOUND)
   \<and> fst (add_file_to_knowledge_by_id indexer_ok ''k1'' ''f1'' state_no_collection)
       = Inl (HTTPException HTTP_400_BAD_REQUEST NOT_FOUND)"
  by (simp add: data_or_empty_simps get_file_ids_update add_file_to_knowledge_by_id_def
      Files_get_file_by_id_def Knowledges_get_knowledge_by_id_def process_file_def
      Knowledges_update_knowledge_by_id_def state_no_file_def state_no_collection_def
      processed_file_def indexer_ok_def not_data_def)

section \<open>A failed indexing leaves the knowledge record alone\<close>

text \<open>
  C3, as amended. When the indexing step of \<open>addFile\<close> is reached and raises, the call
  aborts with status 400 and the text of the exception as its detail, and the knowledge
  record is not touched: the only store call made is the one to \<^verbatim>\<open>process_file\<close>, no
  update is attempted, and the stored \<^verbatim>\<open>file_ids\<close> of the collection is what it was
  before; so it holds the file id afterwards only if it held it before.
\<close>

theorem add_file_indexing_failed_no_mutation:
  assumes "Files_get_file_by_id fid s = Some f"
    and "\<not> not_data (file_data f)"
    and "fst (ix fid kid s) = Some e"
  shows "fst (add_file_to_knowledge_by_id ix kid fid s)
           = Inl (HTTPException HTTP_400_BAD_REQUEST (Str e))
         \<and> knowledges (snd (add_file_to_knowledge_by_id ix kid fid s)) = knowledges s
         \<and> calls (snd (add_file_to_knowledge_by_id ix kid fid s))
             = calls s @ [Process_file fid kid]
         \<and> stored_file_ids kid (snd (add_file_to_knowledge_by_id ix kid fid s))
             = stored_file_ids kid s"
proof -
  have r: "add_file_to_knowledge_by_id ix kid fid s
      = (Inl (HTTPException HTTP_400_BAD_REQUEST (Str e)),
         s\<lparr>vector_db := snd (ix fid kid s), calls := calls s @ [Process_file fid kid]\<rparr>)"
    using assms by (simp add: data_or_empty_simps get_file_ids_update add_file_to_knowledge_by_id_def process_file_def)
  show ?thesis
    by (simp add: data_or_empty_simps get_file_ids_update r stored_file_ids_def)
qed

text \<open>
  C3, the theorem at a collection without members, with the index backend down: the
  call fails, the list stays empty, and \<^verbatim>\<open>process_file\<close> is the only call.
\<close>

theorem add_file_indexing_failed_no_mutation_witness:
  "fst (add_file_to_knowledge_by_id indexer_down ''k1'' ''f1'' state_not_member)
     = Inl (HTTPException HTTP_400_BAD_REQUEST (Str ''index down''))
   \<and> knowledges (snd (add_file_to_knowledge_by_id indexer_down ''k1'' ''f1'' state_not_member)) ''k1''
     = Some None
   \<and> calls (snd (add_file_to_knowledge_by_id indexer_down ''k1'' ''f1'' state_not_member))
     = [Process_file ''f1'' ''k1'']
   \<and> stored_file_ids ''k1'' (snd (add_file_to_knowledge_by_id indexer_down ''k1'' ''f1'' state_not_member))
     = []"
proof -
  have h: "Files_get_file_by_id ''f1'' state_not_member = Some processed_file"
    "\<not> not_data (file_data processed_file)"
    "fst (indexer_down ''f1'' ''k1'' state_not_member) = Some ''index down''"
    by (simp_all add: Files_get_file_by_id_def state_not_member_def processed_file_def not_data_def
        indexer_down_def)
  have v: "knowledges state_not_member ''k1'' = Some None" "calls state_not_member = []"
    "stored_file_ids ''k1'' state_not_member = []"
    by (simp_all add: data_or_empty_simps get_file_ids_update state_not_member_def
        stored_file_ids_def get_file_ids_def)
  show ?thesis
    using add_file_indexing_failed_no_mutation [where ix = indexer_down and kid = "''k1''"
        and fid = "''f1''" and s = state_not_member and f = processed_file
        and e = "''index down''"] h
    by (simp add: v)
qed

text \<open>
  C3, against the claim as it stands, that after every call whose indexing fails the
  collection's \<^verbatim>\<open>file_ids\<close> does not contain the file id: the file \<open>f1\<close> is a member of
  \<open>k1\<close>, it is added again while the index backend is down, the call fails at the
  indexing, and \<open>f1\<close> is in the list afterwards as it was before.
\<close>

theorem add_file_indexing_failed_member_stays:
  "Files_get_file_by_id ''f1'' state_member = Some processed_file
   \<and> \<not> not_data (file_data processed_file)
   \<and> fst (indexer_down ''f1'' ''k1'' state_member) = Some ''index down''
   \<and> fst (add_file_to_knowledge_by_id indexer_down ''k1'' ''f1'' state_member)
       = Inl (HTTPException HTTP_400_BAD_REQUEST (Str ''index down''))
   \<and> ''f1'' \<in> set (stored_file_ids ''k1''
         (snd (add_file_to_knowledge_by_id indexer_down ''k1'' ''f1'' state_member)))"
  by (simp add: data_or_empty_simps get_file_ids_update add_file_to_knowledge_by_id_def
      Files_get_file_by_id_def Knowledges_get_knowledge_by_id_def process_file_def
      Knowledges_update_knowledge_by_id_def state_member_def processed_file_def indexer_down_def
      not_data_def stored_file_ids_def get_file_ids_def)

section \<open>removeFile deletes before it checks the membership\<close>

text \<open>
  C4. The claim is that in \<open>removeFile\<close> the deletion of the file's vector entries, of its
  blob and of its file record is unconditional: it comes before the test of the collection
  record and before the membership check. The router names the collection of the vector
  deletion by \<^verbatim>\<open>knowledge.id\<close>: at the state with the file \<open>f1\<close>, its blob, its entry in
  the index of \<open>k1\<close> and no collection record, the call ends in the uncaught
  \<open>AttributeError\<close> with no store call made, and the file record, the blob and the entry
  are all still there.
\<close>

theorem remove_file_missing_collection_deletes_nothing:
  "Files_get_file_by_id ''f1'' state_no_collection = Some processed_file
   \<and> Knowledges_get_knowledge_by_id ''k1'' state_no_collection = None
   \<and> fst (remove_file_from_knowledge_by_id ''k1'' ''f1'' state_no_collection)
       = Inl (AttributeError ''id'')
   \<and> calls (snd (remove_file_from_knowledge_by_id ''k1'' ''f1'' state_no_collection)) = []
   \<and> Files_get_file_by_id ''f1''
         (snd (remove_file_from_knowledge_by_id ''k1'' ''f1'' state_no_collection))
       = Some processed_file
   \<and> blobs (snd (remove_file_from_knowledge_by_id ''k1'' ''f1'' state_no_collection))
         ''s3://bkt/pre/f1.txt''
       = Some ''hello''
   \<and> ''f1'' \<in> indexed_file_ids ''k1''
         (snd (remove_file_from_knowledge_by_id ''k1'' ''f1'' state_no_collection))"
  by (simp add: remove_file_from_knowledge_by_id_def Files_get_file_by_id_def
      Knowledges_get_knowledge_by_id_def state_no_collection_def indexed_file_ids_def)

text \<open>
  Where the collection record exists the deletions do come before the membership check.
  First part: a call that fails with the not-a-member conflict (status 400,
  \<open>DEFAULT "file_id"\<close>) started with the file record present and ends with the record gone,
  no entry of the file left in the collection's index, the two deleting calls made and
  nothing else, and the knowledge record as it was: nothing is rolled back. Second part:
  for a file record and a collection record that exist, the record, the blob and the
  entries are gone after the call whether or not the file is a member, the two deleting
  calls come first, and the call fails with the conflict exactly when the file is no
  member.
\<close>

theorem remove_file_deletes_before_membership_check:
  "(fst (remove_file_from_knowledge_by_id kid fid s)
      = Inl (HTTPException HTTP_400_BAD_REQUEST (DEFAULT ''file_id'')) \<longrightarrow>
      Files_get_file_by_id fid s \<noteq> None
      \<and> Files_get_file_by_id fid (snd (remove_file_from_knowledge_by_id kid fid s)) = None
      \<and> fid \<notin> indexed_file_ids kid (snd (remove_file_from_knowledge_by_id kid fid s))
      \<and> calls (snd (remove_file_from_knowledge_by_id kid fid s))
          = calls s @ [Vector_delete kid fid, Delete_file fid]
      \<and> knowledges (snd (remove_file_from_knowledge_by_id kid fid s)) = knowledges s)
   \<and> (Files_get_file_by_id fid s = Some f \<and> Knowledges_get_knowledge_by_id kid s = Some k \<longrightarrow>
      Files_get_file_by_id fid (snd (remove_file_from_knowledge_by_id kid fid s)) = None
      \<and> blobs (snd (remove_file_from_knowledge_by_id kid fid s)) (file_locator f) = None
      \<and> fid \<notin> indexed_file_ids kid (snd (remove_file_from_knowledge_by_id kid fid s))
      \<and> take 2 (drop (length (calls s)) (calls (snd (remove_file_from_knowledge_by_id kid fid s))))
          = [Vector_delete kid fid, Delete_file fid]
      \<and> (fst (remove_file_from_knowledge_by_id kid fid s)
            = Inl (HTTPException HTTP_400_BAD_REQUEST (DEFAULT ''file_id'')))
          = (fid \<notin> set (get_file_ids (data_or_empty (knowledge_data k)))))"
proof (intro conjI impI)
  assume "fst (remove_file_from_knowledge_by_id kid fid s)
      = Inl (HTTPException HTTP_400_BAD_REQUEST (DEFAULT ''file_id''))"
  then obtain f d where h: "files s fid = Some f" "knowledges s kid = Some d"
      "fid \<notin> set (get_file_ids (data_or_empty d))"
    using remove_file_conflict_only_if by blast
  note r = remove_file_not_member [OF h]
  show "Files_get_file_by_id fid s \<noteq> None"
    using h(1) by (simp add: Files_get_file_by_id_def)
  show "Files_get_file_by_id fid (snd (remove_file_from_knowledge_by_id kid fid s)) = None"
    by (simp add: r Files_get_file_by_id_def deletions_done [OF h(1)])
  show "fid \<notin> indexed_file_ids kid (snd (remove_file_from_knowledge_by_id kid fid s))"
    by (simp add: r deletions_done [OF h(1)])
  show "calls (snd (remove_file_from_knowledge_by_id kid fid s))
      = calls s @ [Vector_delete kid fid, Delete_file fid]"
    by (simp add: r deletions_done [OF h(1)])
  show "knowledges (snd (remove_file_from_knowledge_by_id kid fid s)) = knowledges s"
    by (simp add: r deletions_done [OF h(1)])
next
  assume a: "Files_get_file_by_id fid s = Some f \<and> Knowledges_get_knowledge_by_id kid s = Some k"
  then have f: "files s fid = Some f"
    by (simp add: Files_get_file_by_id_def)
  from a obtain d where d: "knowledges s kid = Some d" and k: "knowledge_data k = d"
    by (auto simp: data_or_empty_simps get_file_ids_update Knowledges_get_knowledge_by_id_def
        split: option.splits)
  let ?s2 = "Files_delete_file_by_id fid (VECTOR_DB_CLIENT_delete kid fid s)"
  have s': "files (snd (remove_file_from_knowledge_by_id kid fid s)) = files ?s2
      \<and> blobs (snd (remove_file_from_knowledge_by_id kid fid s)) = blobs ?s2
      \<and> vector_db (snd (remove_file_from_knowledge_by_id kid fid s)) = vector_db ?s2
      \<and> take 2 (drop (length (calls s)) (calls (snd (remove_file_from_knowledge_by_id kid fid s))))
          = [Vector_delete kid fid, Delete_file fid]
      \<and> (fst (remove_file_from_knowledge_by_id kid fid s)
            = Inl (HTTPException HTTP_400_BAD_REQUEST (DEFAULT ''file_id'')))
          = (fid \<notin> set (get_file_ids (data_or_empty d)))"
  proof (cases "fid \<in> set (get_file_ids (data_or_empty d))")
    case True
    show ?thesis
      using remove_file_member [OF f d True] True by auto
  next
    case False
    show ?thesis
      using remove_file_not_member [OF f d False] False deletions_done(4) [OF f, of kid]
      by simp
  qed
  show "Files_get_file_by_id fid (snd (remove_file_from_knowledge_by_id kid fid s)) = None"
    by (simp add: s' Files_get_file_by_id_def deletions_done [OF f])
  show "blobs (snd (remove_file_from_knowledge_by_id kid fid s)) (file_locator f) = None"
    by (simp add: s' deletions_done [OF f])
  show "fid \<notin> indexed_file_ids kid (snd (remove_file_from_knowledge_by_id kid fid s))"
    using deletions_done(3) [OF f, of kid] by (simp add: s' indexed_file_ids_def)
  show "take 2 (drop (length (calls s)) (calls (snd (remove_file_from_knowledge_by_id kid fid s))))
      = [Vector_delete kid fid, Delete_file fid]"
    by (simp add: s')
  show "(fst (remove_file_from_knowledge_by_id kid fid s)
            = Inl (HTTPException HTTP_400_BAD_REQUEST (DEFAULT ''file_id'')))
          = (fid \<notin> set (get_file_ids (data_or_empty (knowledge_data k))))"
    by (simp add: s' k)
qed

text \<open>
  The same at a collection \<open>k1\<close> without members and a file \<open>f1\<close> that has a record, a
  blob and an entry in the index of \<open>k1\<close>: the call fails with the conflict and all three
  are gone.
\<close>

theorem remove_file_deletes_before_membership_check_witness:
  "fst (remove_file_from_knowledge_by_id ''k1'' ''f1'' state_not_member)
     = Inl (HTTPException HTTP_400_BAD_REQUEST (DEFAULT ''file_id''))
   \<and> Files_get_file_by_id ''f1'' state_not_member = Some processed_file
   \<and> blobs state_not_member ''s3://bkt/pre/f1.txt'' = Some ''hello''
   \<and> indexed_file_ids ''k1'' state_not_member = {''f1''}
   \<and> Files_get_file_by_id ''f1'' (snd (remove_file_from_knowledge_by_id ''k1'' ''f1'' state_not_member)) = None
   \<and> blobs (snd (remove_file_from_knowledge_by_id ''k1'' ''f1'' state_not_member)) ''s3://bkt/pre/f1.txt''
     = None
   \<and> ''f1'' \<notin> indexed_file_ids ''k1'' (snd (remove_file_from_knowledge_by_id ''k1'' ''f1'' state_not_member))
   \<and> calls (snd (remove_file_from_knowledge_by_id ''k1'' ''f1'' state_not_member))
     = [Vector_delete ''k1'' ''f1'', Delete_file ''f1'']"
proof -
  have h: "Files_get_file_by_id ''f1'' state_not_member = Some processed_file"
    "Knowledges_get_knowledge_by_id ''k1'' state_not_member
       = Some \<lparr>knowledge_id = ''k1'', knowledge_data = None\<rparr>"
    "''f1'' \<notin> set (get_file_ids (data_or_empty (knowledge_data
       \<lparr>knowledge_id = ''k1'', knowledge_data = None\<rparr>)))"
    by (simp_all add: data_or_empty_simps get_file_ids_update Files_get_file_by_id_def
        Knowledges_get_knowledge_by_id_def state_not_member_def get_file_ids_def)
  have v: "blobs state_not_member ''s3://bkt/pre/f1.txt'' = Some ''hello''"
    "indexed_file_ids ''k1'' state_not_member = {''f1''}"
    "calls state_not_member = []"
    "file_locator processed_file = ''s3://bkt/pre/f1.txt''"
    by (simp_all add: state_not_member_def indexed_file_ids_def processed_file_def)
  show ?thesis
    using remove_file_deletes_before_membership_check [where kid = "''k1''" and fid = "''f1''"
        and s = state_not_member and f = processed_file
        and k = "\<lparr>knowledge_id = ''k1'', knowledge_data = None\<rparr>"] h
    by (simp add: v)
qed

section \<open>No duplicate members\<close>

text \<open>
  C5, as amended. Invariant I2 is kept by every operation of the synchronizer: a
  collection whose stored \<^verbatim>\<open>file_ids\<close> has no duplicates before \<open>addFile\<close>, \<open>removeFile\<close>
  or \<open>deleteCollection\<close> has none after it. Adding a file id that is already a member
  fails and leaves the stored list as it was, in length and content; the failure is the
  duplicate-member conflict (status 400, \<open>DEFAULT "file_id"\<close>) when the file record
  exists, the file is processed and the indexing returns normally. So it is on the second
  of two calls that add the same file id, the first having succeeded, when the second
  call's indexing returns normally.
\<close>

theorem file_ids_stay_distinct:
  "(distinct (stored_file_ids c s) \<longrightarrow>
      distinct (stored_file_ids c (snd (add_file_to_knowledge_by_id ix kid fid s)))
      \<and> distinct (stored_file_ids c (snd (remove_file_from_knowledge_by_id kid fid s)))
      \<and> distinct (stored_file_ids c (snd (delete_knowledge_by_id kid s))))
   \<and> (fid \<in> set (stored_file_ids kid s) \<longrightarrow>
      isl (fst (add_file_to_knowledge_by_id ix kid fid s))
      \<and> stored_file_ids kid (snd (add_file_to_knowledge_by_id ix kid fid s))
          = stored_file_ids kid s)
   \<and> (fid \<in> set (stored_file_ids kid s) \<and> Files_get_file_by_id fid s = Some f
        \<and> \<not> not_data (file_data f) \<and> fst (ix fid kid s) = None \<longrightarrow>
      fst (add_file_to_knowledge_by_id ix kid fid s)
        = Inl (HTTPException HTTP_400_BAD_REQUEST (DEFAULT ''file_id'')))
   \<and> (fst (add_file_to_knowledge_by_id ix kid fid s) = Inr r
        \<and> fst (ix' fid kid (snd (add_file_to_knowledge_by_id ix kid fid s))) = None \<longrightarrow>
      fst (add_file_to_knowledge_by_id ix' kid fid (snd (add_file_to_knowledge_by_id ix kid fid s)))
        = Inl (HTTPException HTTP_400_BAD_REQUEST (DEFAULT ''file_id''))
      \<and> stored_file_ids kid
           (snd (add_file_to_knowledge_by_id ix' kid fid (snd (add_file_to_knowledge_by_id ix kid fid s))))
          = stored_file_ids kid (snd (add_file_to_knowledge_by_id ix kid fid s)))"
proof (intro conjI impI)
  assume d: "distinct (stored_file_ids c s)"
  show "distinct (stored_file_ids c (snd (add_file_to_knowledge_by_id ix kid fid s)))"
    using d add_file_success_iff [of ix kid fid s]
    by (auto simp: add_file_stored_unless_success)
  show "distinct (stored_file_ids c (snd (remove_file_from_knowledge_by_id kid fid s)))"
    using d by (auto simp: remove_file_stored)
  show "distinct (stored_file_ids c (snd (delete_knowledge_by_id kid s)))"
    using d by (simp add: delete_knowledge_stored)
next
  assume m: "fid \<in> set (stored_file_ids kid s)"
  show f: "isl (fst (add_file_to_knowledge_by_id ix kid fid s))"
    using m add_file_success_iff [of ix kid fid s] by blast
  show "stored_file_ids kid (snd (add_file_to_knowledge_by_id ix kid fid s)) = stored_file_ids kid s"
    using f by (simp add: add_file_stored_unless_success)
next
  assume a: "fid \<in> set (stored_file_ids kid s) \<and> Files_get_file_by_id fid s = Some f
    \<and> \<not> not_data (file_data f) \<and> fst (ix fid kid s) = None"
  then obtain d where d: "knowledges s kid = Some d" "fid \<in> set (get_file_ids (data_or_empty d))"
    by (cases "knowledges s kid") (simp_all add: data_or_empty_simps get_file_ids_update
        stored_file_ids_def)
  show "fst (add_file_to_knowledge_by_id ix kid fid s)
      = Inl (HTTPException HTTP_400_BAD_REQUEST (DEFAULT ''file_id''))"
    using a d by (simp add: data_or_empty_simps get_file_ids_update add_file_to_knowledge_by_id_def process_file_def
        Knowledges_get_knowledge_by_id_def)
next
  let ?s1 = "snd (add_file_to_knowledge_by_id ix kid fid s)"
  assume a: "fst (add_file_to_knowledge_by_id ix kid fid s) = Inr r
    \<and> fst (ix' fid kid ?s1) = None"
  then have ok: "\<not> isl (fst (add_file_to_knowledge_by_id ix kid fid s))"
    by simp
  have m1: "fid \<in> set (stored_file_ids kid ?s1)"
    using ok by (simp add: add_file_stored_unless_success)
  obtain f where f: "Files_get_file_by_id fid s = Some f" "\<not> not_data (file_data f)"
    using ok add_file_success_iff [of ix kid fid s] by (auto split: option.splits)
  have f1: "Files_get_file_by_id fid ?s1 = Some f"
    using f add_file_files [of ix kid fid s] by (simp add: Files_get_file_by_id_def)
  obtain d1 where d1: "knowledges ?s1 kid = Some d1"
      "fid \<in> set (get_file_ids (data_or_empty d1))"
    using m1 by (cases "knowledges ?s1 kid") (simp_all add: data_or_empty_simps get_file_ids_update stored_file_ids_def)
  show "fst (add_file_to_knowledge_by_id ix' kid fid ?s1)
      = Inl (HTTPException HTTP_400_BAD_REQUEST (DEFAULT ''file_id''))"
    using d1 f1 f(2) a
    by (simp add: data_or_empty_simps get_file_ids_update add_file_to_knowledge_by_id_def [of
        ix'] process_file_def Knowledges_get_knowledge_by_id_def)
  then have "isl (fst (add_file_to_knowledge_by_id ix' kid fid ?s1))"
    by simp
  then show "stored_file_ids kid (snd (add_file_to_knowledge_by_id ix' kid fid ?s1))
      = stored_file_ids kid ?s1"
    by (simp add: add_file_stored_unless_success)
qed

text \<open>
  C5, the theorem at the example states: the list of \<open>k1\<close> stays free of duplicates
  under the three operations; adding \<open>f1\<close> to \<open>k1\<close> a second time fails with the
  conflict, and the list is \<open>[f1]\<close> before and after.
\<close>

theorem file_ids_stay_distinct_witness:
  "distinct (stored_file_ids ''k1'' state_member)
   \<and> distinct (stored_file_ids ''k1'' (snd (add_file_to_knowledge_by_id indexer_ok ''k1'' ''f1'' state_member)))
   \<and> distinct (stored_file_ids ''k1'' (snd (remove_file_from_knowledge_by_id ''k1'' ''f1'' state_member)))
   \<and> distinct (stored_file_ids ''k1'' (snd (delete_knowledge_by_id ''k1'' state_member)))
   \<and> isl (fst (add_file_to_knowledge_by_id indexer_down ''k1'' ''f1'' state_member))
   \<and> stored_file_ids ''k1'' (snd (add_file_to_knowledge_by_id indexer_down ''k1'' ''f1'' state_member))
       = [''f1'']
   \<and> fst (add_file_to_knowledge_by_id indexer_ok ''k1'' ''f1'' state_member)
       = Inl (HTTPException HTTP_400_BAD_REQUEST (DEFAULT ''file_id''))
   \<and> fst (add_file_to_knowledge_by_id indexer_ok ''k1'' ''f1''
          (snd (add_file_to_knowledge_by_id indexer_ok ''k1'' ''f1'' state_not_member)))
       = Inl (HTTPException HTTP_400_BAD_REQUEST (DEFAULT ''file_id''))
   \<and> stored_file_ids ''k1''
         (snd (add_file_to_knowledge_by_id indexer_ok ''k1'' ''f1''
            (snd (add_file_to_knowledge_by_id indexer_ok ''k1'' ''f1'' state_not_member))))
       = [''f1'']"
proof -
  have m: "stored_file_ids ''k1'' state_member = [''f1'']"
    "Files_get_file_by_id ''f1'' state_member = Some processed_file"
    "\<not> not_data (file_data processed_file)"
    "fst (indexer_ok ''f1'' ''k1'' state_member) = None"
    by (simp_all add: data_or_empty_simps get_file_ids_update stored_file_ids_def
        state_member_def get_file_ids_def Files_get_file_by_id_def processed_file_def not_data_def
        indexer_ok_def)
  have first: "add_file_to_knowledge_by_id indexer_ok ''k1'' ''f1'' state_not_member
      = (Inr \<lparr>response_knowledge =
               \<lparr>knowledge_id = ''k1'', knowledge_data = Some [(''file_ids'', [''f1''])]\<rparr>,
             response_files = [processed_file]\<rparr>,
         state_not_member
           \<lparr>knowledges := [''k1'' \<mapsto> Some [(''file_ids'', [''f1''])]],
            vector_db := [''k1'' \<mapsto> [(''f1'', ''hello''), (''f1'', ''chunk'')]],
            calls := [Process_file ''f1'' ''k1'',
                      Update_knowledge ''k1'' [(''file_ids'', [''f1''])]]\<rparr>)"
    by (simp add: data_or_empty_simps get_file_ids_update add_file_to_knowledge_by_id_def
        Files_get_file_by_id_def Knowledges_get_knowledge_by_id_def process_file_def
        Knowledges_update_knowledge_by_id_def state_not_member_def processed_file_def indexer_ok_def
        not_data_def get_file_ids_def Files_get_files_by_ids_def List.map_filter_simps Let_def)
  have second: "fst (indexer_ok ''f1'' ''k1''
      (snd (add_file_to_knowledge_by_id indexer_ok ''k1'' ''f1'' state_not_member))) = None"
    "stored_file_ids ''k1''
      (snd (add_file_to_knowledge_by_id indexer_ok ''k1'' ''f1'' state_not_member)) = [''f1'']"
    by (simp_all add: data_or_empty_simps get_file_ids_update first indexer_ok_def
        stored_file_ids_def get_file_ids_def)
  show ?thesis
    using file_ids_stay_distinct [where c = "''k1''" and kid = "''k1''" and fid = "''f1''"
        and s = state_member and ix = indexer_ok and f = processed_file]
      file_ids_stay_distinct [where c = "''k1''" and kid = "''k1''" and fid = "''f1''"
        and s = state_member and ix = indexer_down]
      file_ids_stay_distinct [where c = "''k1''" and kid = "''k1''" and fid = "''f1''"
        and s = state_not_member and ix = indexer_ok and ix' = indexer_ok
        and r = "\<lparr>response_knowledge =
               \<lparr>knowledge_id = ''k1'', knowledge_data = Some [(''file_ids'', [''f1''])]\<rparr>,
             response_files = [processed_file]\<rparr>"]
    by (simp add: m second) (simp add: first)
qed

text \<open>
  C5, against the claim as it stands, that adding a file id that is already a member
  yields the conflict on the second call: \<open>f1\<close> is added to \<open>k1\<close> and the call succeeds;
  it is added again while the index backend is down, and the second call fails with the
  text of the indexing exception as its detail, not with the conflict.
\<close>

theorem add_file_again_index_down:
  "\<not> isl (fst (add_file_to_knowledge_by_id indexer_ok ''k1'' ''f1'' state_not_member))
   \<and> stored_file_ids ''k1'' (snd (add_file_to_knowledge_by_id indexer_ok ''k1'' ''f1'' state_not_member))
       = [''f1'']
   \<and> fst (add_file_to_knowledge_by_id indexer_down ''k1'' ''f1''
          (snd (add_file_to_knowledge_by_id indexer_ok ''k1'' ''f1'' state_not_member)))
       = Inl (HTTPException HTTP_400_BAD_REQUEST (Str ''index down''))"
  by (simp add: data_or_empty_simps get_file_ids_update add_file_to_knowledge_by_id_def
      Files_get_file_by_id_def Knowledges_get_knowledge_by_id_def process_file_def
      Knowledges_update_knowledge_by_id_def state_not_member_def processed_file_def indexer_down_def
      indexer_ok_def not_data_def stored_file_ids_def get_file_ids_def Files_get_files_by_ids_def
      Let_def)

section \<open>Deleting a collection\<close>

text \<open>
  C6. \<open>deleteCollection\<close> asks for the deletion of the vector index of the id first and
  deletes the knowledge record second, whatever the state; it returns true iff a record
  existed; afterwards there is neither index nor record, the files are left alone, and a
  second deletion of the same id returns false. No call raises. The two store
  operations are the ones modelled from the spec.
\<close>

theorem delete_knowledge_twice:
  "fst (delete_knowledge_by_id kid s) = Inr (Knowledges_get_knowledge_by_id kid s \<noteq> None)
   \<and> calls (snd (delete_knowledge_by_id kid s))
       = calls s @ [Vector_delete_collection kid, Delete_knowledge kid]
   \<and> vector_db (snd (delete_knowledge_by_id kid s)) kid = None
   \<and> Knowledges_get_knowledge_by_id kid (snd (delete_knowledge_by_id kid s)) = None
   \<and> files (snd (delete_knowledge_by_id kid s)) = files s
   \<and> fst (delete_knowledge_by_id kid (snd (delete_knowledge_by_id kid s))) = Inr False"
  by (simp add: data_or_empty_simps get_file_ids_update delete_knowledge_by_id_def
      VECTOR_DB_CLIENT_delete_collection_def Knowledges_delete_knowledge_by_id_def
      Knowledges_get_knowledge_by_id_def split: option.splits)

section \<open>The locator does not always lead back to the object\<close>

text \<open>
  C7. The claim is that for every content that is not empty and every file name the
  locator returned by \<^verbatim>\<open>upload_file\<close>, parsed as \<^verbatim>\<open>get_file\<close> parses it, gives back the
  bucket and the key that were written, so that the object is read back. With bucket
  \<open>bkt\<close>, prefix \<open>pre\<close> and the file name \<open>a//b.txt\<close> the upload succeeds and writes the key
  \<open>pre/a//b.txt\<close>; the parse splits the locator at every \<^verbatim>\<open>"//"\<close> and keeps the second
  piece, so it yields the key \<open>pre/a\<close>, and \<^verbatim>\<open>get_file\<close> fails with a \<open>RuntimeError\<close>
  although the object is there. With an empty prefix the parse itself fails for every
  file name.
\<close>

theorem upload_then_get_file_misses_object:
  "fst (upload_file example_provider no_faults ''hello'' ''a//b.txt'' empty_s3)
     = Inr (''hello'', ''s3://bkt/pre/a//b.txt'')
   \<and> objects (snd (upload_file example_provider no_faults ''hello'' ''a//b.txt'' empty_s3))
       (''bkt'', ''pre/a//b.txt'') = Some ''hello''
   \<and> parse_locator ''s3://bkt/pre/a//b.txt'' = Inr (''bkt'', ''pre/a'')
   \<and> fst (get_file no_faults ''s3://bkt/pre/a//b.txt''
          (snd (upload_file example_provider no_faults ''hello'' ''a//b.txt'' empty_s3)))
     = Inl (RuntimeError ''Error downloading file s3://bkt/pre/a//b.txt from S3: NoSuchKey'')
   \<and> fst (upload_file provider_no_prefix no_faults ''hello'' ''f1.txt'' empty_s3)
     = Inr (''hello'', ''s3://bkt//f1.txt'')
   \<and> parse_locator ''s3://bkt//f1.txt''
     = Inl ''not enough values to unpack (expected 2, got 1)''"
  by (simp add: upload_file_def put_object_def get_file_def get_object_def parse_locator_def
      split_def split1_def example_provider_def provider_no_prefix_def no_faults_def
      empty_s3_def object_key_def locator_def)

section \<open>The results of upload_file\<close>

text \<open>
  C8. \<^verbatim>\<open>upload_file\<close> fails with the \<open>ValueError\<close> of \<open>EMPTY_CONTENT\<close> iff the content is
  empty, and then sends nothing. For a content that is not empty it sends one
  \<open>PutObject\<close> for the bucket, the key and the content; when the backend accepts the
  request the result is the pair of the content and the locator, and the object is
  stored; when the backend raises, the result is a \<open>RuntimeError\<close> that carries the text
  of the exception, and no object is stored.
\<close>

theorem upload_file_results:
  "((fst (upload_file self faults contents filename s) = Inl (ValueError EMPTY_CONTENT))
      = (contents = []))
   \<and> (contents = [] \<longrightarrow> snd (upload_file self faults contents filename s) = s)
   \<and> (contents \<noteq> [] \<longrightarrow>
        requests (snd (upload_file self faults contents filename s))
          = requests s @ [PutObject (bucket_name self) (object_key self filename) contents])
   \<and> (contents \<noteq> []
        \<and> faults (PutObject (bucket_name self) (object_key self filename) contents) = None \<longrightarrow>
        fst (upload_file self faults contents filename s)
          = Inr (contents, locator self filename)
        \<and> objects (snd (upload_file self faults contents filename s))
          = (objects s)((bucket_name self, object_key self filename) \<mapsto> contents))
   \<and> (contents \<noteq> []
        \<and> faults (PutObject (bucket_name self) (object_key self filename) contents) = Some e \<longrightarrow>
        fst (upload_file self faults contents filename s)
          = Inl (RuntimeError (''Error uploading file to S3: '' @ e))
        \<and> objects (snd (upload_file self faults contents filename s)) = objects s)"
proof (cases "contents = []")
  case True
  then show ?thesis
    by (simp add: upload_file_def)
next
  case False
  show ?thesis
  proof (cases "faults (PutObject (bucket_name self) (object_key self filename) contents)")
    case None
    then show ?thesis
      using False by (simp add: upload_file_def put_object_def Let_def)
  next
    case (Some e')
    then show ?thesis
      using False by (simp add: upload_file_def put_object_def Let_def)
  qed
qed

text \<open>
  C8, the theorem at an empty content, at the content \<open>hello\<close> with a backend that
  accepts, and at the same content with a backend that times out.
\<close>

theorem upload_file_results_witness:
  "upload_file example_provider no_faults [] ''f1.txt'' empty_s3
     = (Inl (ValueError EMPTY_CONTENT), empty_s3)
   \<and> fst (upload_file example_provider no_faults ''hello'' ''f1.txt'' empty_s3)
     = Inr (''hello'', ''s3://bkt/pre/f1.txt'')
   \<and> requests (snd (upload_file example_provider no_faults ''hello'' ''f1.txt'' empty_s3))
     = [PutObject ''bkt'' ''pre/f1.txt'' ''hello'']
   \<and> objects (snd (upload_file example_provider no_faults ''hello'' ''f1.txt'' empty_s3))
       (''bkt'', ''pre/f1.txt'') = Some ''hello''
   \<and> fst (upload_file example_provider backend_down ''hello'' ''f1.txt'' empty_s3)
     = Inl (RuntimeError ''Error uploading file to S3: timeout'')
   \<and> objects (snd (upload_file example_provider backend_down ''hello'' ''f1.txt'' empty_s3))
       (''bkt'', ''pre/f1.txt'') = None"
proof -
  have h: "bucket_name example_provider = ''bkt''"
    "object_key example_provider ''f1.txt'' = ''pre/f1.txt''"
    "locator example_provider ''f1.txt'' = ''s3://bkt/pre/f1.txt''"
    "no_faults (PutObject ''bkt'' ''pre/f1.txt'' ''hello'') = None"
    "backend_down (PutObject ''bkt'' ''pre/f1.txt'' ''hello'') = Some ''timeout''"
    "objects empty_s3 (''bkt'', ''pre/f1.txt'') = None"
    "requests empty_s3 = []"
    by (simp_all add: example_provider_def object_key_def locator_def no_faults_def
        backend_down_def empty_s3_def)
  show ?thesis
    using upload_file_results [where self = example_provider and faults = no_faults
        and contents = "[]" and filename = "''f1.txt''" and s = empty_s3]
      upload_file_results [where self = example_provider and faults = no_faults
        and contents = "''hello''" and filename = "''f1.txt''" and s = empty_s3]
      upload_file_results [where self = example_provider and faults = backend_down
        and contents = "''hello''" and filename = "''f1.txt''" and s = empty_s3
        and e = "''timeout''"]
    by (simp add: h prod_eq_iff)
qed

section \<open>A member is indexed again before it is refused\<close>

text \<open>
  C9, as amended. For a call of \<open>addFile\<close> where the file exists and is processed, the
  collection exists, the file id is already a member, and the indexing step returns
  normally, the call fails with the duplicate-member conflict (status 400,
  \<open>DEFAULT "file_id"\<close>), and the indexing step has run before the membership check: the
  vector database after the call is the one the indexer left, the call to
  \<^verbatim>\<open>process_file\<close> is the one store call made, and the knowledge record is as it was.
\<close>

theorem add_file_duplicate_after_indexing:
  assumes "Files_get_file_by_id fid s = Some f"
    and "\<not> not_data (file_data f)"
    and "Knowledges_get_knowledge_by_id kid s = Some k"
    and "fid \<in> set (get_file_ids (data_or_empty (knowledge_data k)))"
    and "fst (ix fid kid s) = None"
  shows "fst (add_file_to_knowledge_by_id ix kid fid s)
           = Inl (HTTPException HTTP_400_BAD_REQUEST (DEFAULT ''file_id''))
         \<and> vector_db (snd (add_file_to_knowledge_by_id ix kid fid s)) = snd (ix fid kid s)
         \<and> calls (snd (add_file_to_knowledge_by_id ix kid fid s))
             = calls s @ [Process_file fid kid]
         \<and> knowledges (snd (add_file_to_knowledge_by_id ix kid fid s)) = knowledges s"
proof -
  have r: "add_file_to_knowledge_by_id ix kid fid s
      = (Inl (HTTPException HTTP_400_BAD_REQUEST (DEFAULT ''file_id'')),
         s\<lparr>vector_db := snd (ix fid kid s), calls := calls s @ [Process_file fid kid]\<rparr>)"
    using assms by (simp add: data_or_empty_simps get_file_ids_update add_file_to_knowledge_by_id_def process_file_def)
  show ?thesis
    by (simp add: r)
qed

text \<open>
  C9, the theorem at the collection \<open>k1\<close> with the member \<open>f1\<close> and an indexer that
  adds one entry: the call fails with the conflict, and the index of \<open>k1\<close> has grown from
  one entry to two.
\<close>

theorem add_file_duplicate_after_indexing_witness:
  "fst (add_file_to_knowledge_by_id indexer_ok ''k1'' ''f1'' state_member)
     = Inl (HTTPException HTTP_400_BAD_REQUEST (DEFAULT ''file_id''))
   \<and> vector_db state_member ''k1'' = Some [(''f1'', ''hello'')]
   \<and> vector_db (snd (add_file_to_knowledge_by_id indexer_ok ''k1'' ''f1'' state_member)) ''k1''
     = Some [(''f1'', ''hello''), (''f1'', ''chunk'')]
   \<and> calls (snd (add_file_to_knowledge_by_id indexer_ok ''k1'' ''f1'' state_member))
     = [Process_file ''f1'' ''k1'']
   \<and> knowledges (snd (add_file_to_knowledge_by_id indexer_ok ''k1'' ''f1'' state_member)) ''k1''
     = Some (Some [(''file_ids'', [''f1''])])"
proof -
  have h: "Files_get_file_by_id ''f1'' state_member = Some processed_file"
    "\<not> not_data (file_data processed_file)"
    "Knowledges_get_knowledge_by_id ''k1'' state_member
       = Some \<lparr>knowledge_id = ''k1'', knowledge_data = Some [(''file_ids'', [''f1''])]\<rparr>"
    "''f1'' \<in> set (get_file_ids (data_or_empty (knowledge_data
       \<lparr>knowledge_id = ''k1'', knowledge_data = Some [(''file_ids'', [''f1''])]\<rparr>)))"
    "fst (indexer_ok ''f1'' ''k1'' state_member) = None"
    by (simp_all add: data_or_empty_simps get_file_ids_update Files_get_file_by_id_def
        Knowledges_get_knowledge_by_id_def state_member_def processed_file_def not_data_def
        indexer_ok_def get_file_ids_def)
  have v: "vector_db state_member ''k1'' = Some [(''f1'', ''hello'')]"
    "snd (indexer_ok ''f1'' ''k1'' state_member) ''k1''
       = Some [(''f1'', ''hello''), (''f1'', ''chunk'')]"
    "calls state_member = []"
    "knowledges state_member ''k1'' = Some (Some [(''file_ids'', [''f1''])])"
    by (simp_all add: state_member_def indexer_ok_def)
  show ?thesis
    using add_file_duplicate_after_indexing [where ix = indexer_ok and kid = "''k1''"
        and fid = "''f1''" and s = state_member and f = processed_file
        and k = "\<lparr>knowledge_id = ''k1'', knowledge_data = Some [(''file_ids'', [''f1''])]\<rparr>"] h
    by (simp add: v)
qed

text \<open>
  C9, against the claim as it stands, that every call with an existing, processed file,
  an existing collection and a file id that is already a member fails with the
  duplicate-member conflict: with the index backend down such a call fails at the
  indexing, and its exception is not the conflict.
\<close>

theorem add_file_member_index_down:
  "Files_get_file_by_id ''f1'' state_member = Some processed_file
   \<and> \<not> not_data (file_data processed_file)
   \<and> Knowledges_get_knowledge_by_id ''k1'' state_member
       = Some \<lparr>knowledge_id = ''k1'', knowledge_data = Some [(''file_ids'', [''f1''])]\<rparr>
   \<and> ''f1'' \<in> set (get_file_ids (data_or_empty (Some [(''file_ids'', [''f1''])])))
   \<and> fst (add_file_to_knowledge_by_id indexer_down ''k1'' ''f1'' state_member)
       \<noteq> Inl (HTTPException HTTP_400_BAD_REQUEST (DEFAULT ''file_id''))"
  by (simp add: data_or_empty_simps get_file_ids_update add_file_to_knowledge_by_id_def
      Files_get_file_by_id_def Knowledges_get_knowledge_by_id_def process_file_def
      Knowledges_update_knowledge_by_id_def state_member_def processed_file_def indexer_down_def
      not_data_def get_file_ids_def)

section \<open>delete_file takes its argument as the key\<close>

text \<open>
  C10. \<^verbatim>\<open>delete_file\<close> sends one \<open>DeleteObject\<close> for the configured bucket and the key
  that is its argument, unparsed, and when the backend accepts the request it is the
  object under that key that is gone. The locator that \<^verbatim>\<open>upload_file\<close> returns for a
  file name differs from the key that \<^verbatim>\<open>upload_file\<close> wrote, for every prefix and file
  name, so \<^verbatim>\<open>delete_file\<close> called with the locator leaves the uploaded object where it
  is.
\<close>

theorem delete_file_key_is_argument:
  "requests (snd (delete_file self faults name s))
     = requests s @ [DeleteObject (bucket_name self) name]
   \<and> objects (snd (delete_file self faults name s))
     = (case faults (DeleteObject (bucket_name self) name) of
          None \<Rightarrow> (objects s)((bucket_name self, name) := None)
        | Some e \<Rightarrow> objects s)
   \<and> locator self filename \<noteq> object_key self filename
   \<and> objects (snd (delete_file self faults (locator self filename) s))
         (bucket_name self, object_key self filename)
     = objects s (bucket_name self, object_key self filename)"
  using locator_not_key [of self filename]
  by (simp add: delete_file_def delete_object_def Let_def split: option.splits)

section \<open>Where the locator does lead back\<close>

text \<open>
  When the bucket name holds no slash and bucket name, prefix and file name put no two
  slashes side by side, an upload that the backend accepts followed by \<^verbatim>\<open>get_file\<close> on
  the returned locator, the backend accepting again, yields the uploaded bytes.
\<close>

theorem upload_then_get_file_round_trip:
  assumes "contents \<noteq> []"
    and "CHR ''/'' \<notin> set (bucket_name self)"
    and "\<not> has_double_slash (bucket_name self @ ''/'' @ object_key self filename)"
    and "faults (PutObject (bucket_name self) (object_key self filename) contents) = None"
    and "faults' (GetObject (bucket_name self) (object_key self filename)) = None"
  shows "fst (get_file faults' (locator self filename)
            (snd (upload_file self faults contents filename s))) = Inr contents"
  using assms
  by (simp add: get_file_def parse_locator_locator upload_file_def put_object_def
      get_object_def Let_def)

text \<open>The round trip at the bucket \<open>bkt\<close>, the prefix \<open>pre\<close> and the file name \<open>f1.txt\<close>.\<close>

theorem upload_then_get_file_round_trip_witness:
  "fst (get_file no_faults ''s3://bkt/pre/f1.txt''
     (snd (upload_file example_provider no_faults ''hello'' ''f1.txt'' empty_s3))) = Inr ''hello''"
proof -
  have h: "''hello'' \<noteq> []"
    "CHR ''/'' \<notin> set (bucket_name example_provider)"
    "\<not> has_double_slash (bucket_name example_provider @ ''/'' @ object_key example_provider ''f1.txt'')"
    "no_faults (PutObject (bucket_name example_provider) (object_key example_provider ''f1.txt'') ''hello'') = None"
    "no_faults (GetObject (bucket_name example_provider) (object_key example_provider ''f1.txt'')) = None"
    by (simp_all add: example_provider_def object_key_def no_faults_def)
  have l: "locator example_provider ''f1.txt'' = ''s3://bkt/pre/f1.txt''"
    by (simp add: locator_def example_provider_def)
  show ?thesis
    using upload_then_get_file_round_trip [where self = example_provider and faults = no_faults
        and faults' = no_faults and contents = "''hello''" and filename = "''f1.txt''"
        and s = empty_s3] h
    by (simp add: l)
qed

end
